theory Spec2Isabelle
  imports Main
begin

section \<open>Python values\<close>

text \<open>
  The client is dynamically typed: option dictionaries, base-repo specs and JSON
  response bodies hold values whose type the code probes at run time
  (\<^verbatim>\<open>isinstance\<close>, \<^verbatim>\<open>in\<close>, truthiness). A dictionary is an association
  list in insertion order, as a Python dict is. Characters stand for code points
  below 256.
\<close>

datatype pyval =
    PNone
  | PBool bool
  | PInt int
  | PStr string
  | PList "pyval list"
  | PDict "(string \<times> pyval) list"

type_synonym pydict = "(string \<times> pyval) list"

text \<open>Python truthiness (\<^verbatim>\<open>bool(v)\<close>).\<close>

fun truthy :: "pyval \<Rightarrow> bool" where
  "truthy PNone = False"
| "truthy (PBool b) = b"
| "truthy (PInt i) = (i \<noteq> 0)"
| "truthy (PStr s) = (s \<noteq> [])"
| "truthy (PList xs) = (xs \<noteq> [])"
| "truthy (PDict d) = (d \<noteq> [])"

text \<open>\<^verbatim>\<open>isinstance(v, int)\<close>: \<^verbatim>\<open>bool\<close> is a subclass of \<^verbatim>\<open>int\<close>.\<close>

fun isinstance_int :: "pyval \<Rightarrow> bool" where
  "isinstance_int (PInt i) = True"
| "isinstance_int (PBool b) = True"
| "isinstance_int v = False"

text \<open>\<^verbatim>\<open>d.get(k)\<close> is \<open>dict_get d k\<close>, with \<open>None\<close> for a missing key.\<close>

definition dict_get :: "pydict \<Rightarrow> string \<Rightarrow> pyval option" where
  "dict_get d k = map_of d k"

text \<open>\<^verbatim>\<open>k in d\<close>\<close>

definition dict_has :: "pydict \<Rightarrow> string \<Rightarrow> bool" where
  "dict_has d k = (map_of d k \<noteq> None)"

text \<open>\<^verbatim>\<open>d.get(k, dflt)\<close>\<close>

definition dict_get_default :: "pydict \<Rightarrow> string \<Rightarrow> pyval \<Rightarrow> pyval" where
  "dict_get_default d k dflt = (case map_of d k of None \<Rightarrow> dflt | Some v \<Rightarrow> v)"

text \<open>The truthiness of \<^verbatim>\<open>d.get(k)\<close>: a missing key gives \<^verbatim>\<open>None\<close>, which is falsy.\<close>

definition dict_get_truthy :: "pydict \<Rightarrow> string \<Rightarrow> bool" where
  "dict_get_truthy d k = (case map_of d k of None \<Rightarrow> False | Some v \<Rightarrow> truthy v)"

text \<open>\<^verbatim>\<open>d[k] = v\<close>: an existing key keeps its position, a new key goes last.\<close>

fun dict_set :: "pydict \<Rightarrow> string \<Rightarrow> pyval \<Rightarrow> pydict" where
  "dict_set [] k v = [(k, v)]"
| "dict_set ((k', v') # d) k v =
     (if k' = k then (k, v) # d else (k', v') # dict_set d k v)"

text \<open>\<^verbatim>\<open>{**a, **b}\<close>: the entries of \<open>b\<close> are stored into \<open>a\<close> one by one.\<close>

fun dict_merge :: "pydict \<Rightarrow> pydict \<Rightarrow> pydict" where
  "dict_merge a [] = a"
| "dict_merge a ((k, v) # b) = dict_merge (dict_set a k v) b"

section \<open>Strings\<close>

text \<open>The decimal digit for a number below ten.\<close>

definition digit_char :: "nat \<Rightarrow> char" where
  "digit_char n = ''0123456789'' ! n"

fun str_nat :: "nat \<Rightarrow> string" where
  "str_nat n = (if n < 10 then [digit_char n] else str_nat (n div 10) @ [digit_char (n mod 10)])"

declare str_nat.simps [simp del]

text \<open>\<^verbatim>\<open>str(i)\<close> for an integer, as an f-string formats it.\<close>

definition str_int :: "int \<Rightarrow> string" where
  "str_int i = (if i < 0 then CHR ''-'' # str_nat (nat (- i)) else str_nat (nat i))"

text \<open>
  \<^verbatim>\<open>s.replace(old, new)\<close> for a non-empty \<open>old\<close>: the occurrences are found from the
  left and do not overlap, and the text put in is not searched again.
\<close>

function str_replace_from :: "string \<Rightarrow> string \<Rightarrow> string \<Rightarrow> string" where
  "str_replace_from old new [] = []"
| "str_replace_from old new (c # cs) =
     (if old \<noteq> [] \<and> take (length old) (c # cs) = old
      then new @ str_replace_from old new (drop (length old) (c # cs))
      else c # str_replace_from old new cs)"
  by pat_completeness auto
termination
  by (relation "measure (\<lambda>(old, new, s). length s)") auto

text \<open>With an empty \<open>old\<close>, Python puts \<open>new\<close> before every character and at the end.\<close>

definition str_replace :: "string \<Rightarrow> string \<Rightarrow> string \<Rightarrow> string" where
  "str_replace s old new =
     (if old = [] then new @ concat (map (\<lambda>c. c # new) s) else str_replace_from old new s)"

text \<open>
  The characters \<^verbatim>\<open>str.strip()\<close> removes: TAB to CR, FS to US, the space, NEL and the
  no-break space.
\<close>

definition is_space :: "char \<Rightarrow> bool" where
  "is_space c =
     (let n = (of_char c :: nat)
      in (9 \<le> n \<and> n \<le> 13) \<or> (28 \<le> n \<and> n \<le> 32) \<or> n = 133 \<or> n = 160)"

definition str_strip :: "string \<Rightarrow> string" where
  "str_strip s = rev (dropWhile is_space (rev (dropWhile is_space s)))"

section \<open>Errors\<close>

text \<open>
  The exceptions the client raises, each with the arguments the code gives it. Every
  HTTP failure is raised as \<^verbatim>\<open>ApiError(message, status_code=..., response=...)\<close>, and a
  bad configuration as \<^verbatim>\<open>ValueError(message)\<close>. The last four are raised by the Python
  run time: a missing dictionary key, a method or subscript on a value that has none,
  and a response body that is not JSON.
\<close>

record response =
  status_code :: int
  reason_phrase :: string
  json :: "pyval option"

datatype error =
    ApiError string int "response option"
  | ValueError string
  | KeyError string
  | AttributeError
  | TypeError
  | JSONDecodeError

text \<open>The name of the class of the exception raised.\<close>

fun exception_class :: "error \<Rightarrow> string" where
  "exception_class (ApiError m s r) = ''ApiError''"
| "exception_class (ValueError m) = ''ValueError''"
| "exception_class (KeyError k) = ''KeyError''"
| "exception_class AttributeError = ''AttributeError''"
| "exception_class TypeError = ''TypeError''"
| "exception_class JSONDecodeError = ''JSONDecodeError''"

text \<open>\<^verbatim>\<open>response.is_success\<close> of the HTTP library: a status from 200 to 299.\<close>

definition is_success :: "response \<Rightarrow> bool" where
  "is_success r = (200 \<le> status_code r \<and> status_code r \<le> 299)"

section \<open>Configuration\<close>

definition DEFAULT_API_BASE_URL :: string where
  "DEFAULT_API_BASE_URL = ''https://api.{{org}}.code.storage''"

definition DEFAULT_STORAGE_BASE_URL :: string where
  "DEFAULT_STORAGE_BASE_URL = ''{{org}}.code.storage''"

definition DEFAULT_API_VERSION :: int where
  "DEFAULT_API_VERSION = 1"

definition get_default_api_base_url :: "string \<Rightarrow> string" where
  "get_default_api_base_url name = str_replace DEFAULT_API_BASE_URL ''{{org}}'' name"

definition get_default_storage_base_url :: "string \<Rightarrow> string" where
  "get_default_storage_base_url name = str_replace DEFAULT_STORAGE_BASE_URL ''{{org}}'' name"

text \<open>
  The options a caller passes to the constructor, a dictionary in which every key may
  be missing. The constructor tests the type of \<^verbatim>\<open>name\<close> and \<^verbatim>\<open>key\<close> itself, and
  \<^verbatim>\<open>_generate_jwt\<close> that of \<^verbatim>\<open>default_ttl\<close>, so these hold any value; the other fields
  have their declared types.
\<close>

record GitStorageOptions =
  opt_name :: "pyval option"
  opt_key :: "pyval option"
  opt_api_base_url :: "string option"
  opt_storage_base_url :: "string option"
  opt_api_version :: "int option"
  opt_default_ttl :: "pyval option"

text \<open>The dictionary has no key at all.\<close>

definition options_empty :: "GitStorageOptions \<Rightarrow> bool" where
  "options_empty opts =
     (opt_name opts = None \<and> opt_key opts = None \<and> opt_api_base_url opts = None \<and>
      opt_storage_base_url opts = None \<and> opt_api_version opts = None \<and>
      opt_default_ttl opts = None)"

text \<open>
  \<^verbatim>\<open>self.options\<close> as the constructor leaves it: five keys always, and \<^verbatim>\<open>default_ttl\<close>
  only when a truthy one was given.
\<close>

record config =
  cfg_name :: string
  cfg_key :: string
  cfg_api_base_url :: string
  cfg_storage_base_url :: string
  cfg_api_version :: int
  cfg_default_ttl :: "pyval option"

text \<open>\<^verbatim>\<open>x or dflt\<close> for an optional string and an optional integer.\<close>

definition str_or :: "string option \<Rightarrow> string \<Rightarrow> string" where
  "str_or x dflt = (case x of None \<Rightarrow> dflt | Some s \<Rightarrow> if s \<noteq> [] then s else dflt)"

definition int_or :: "int option \<Rightarrow> int \<Rightarrow> int" where
  "int_or x dflt = (case x of None \<Rightarrow> dflt | Some i \<Rightarrow> if i \<noteq> 0 then i else dflt)"

definition MSG_NAME_AND_KEY :: string where
  "MSG_NAME_AND_KEY =
     ''GitStorage requires a name and key. Please check your configuration and try again.''"

text \<open>
  The second half of the constructor (\<^verbatim>\<open># Resolve configuration\<close>), for a name and a
  key that passed the checks.
\<close>

definition resolve_configuration :: "string \<Rightarrow> string \<Rightarrow> GitStorageOptions \<Rightarrow> config" where
  "resolve_configuration name key opts =
     \<lparr>cfg_name = name,
      cfg_key = key,
      cfg_api_base_url = str_or (opt_api_base_url opts) (get_default_api_base_url name),
      cfg_storage_base_url =
        str_or (opt_storage_base_url opts) (get_default_storage_base_url name),
      cfg_api_version = int_or (opt_api_version opts) DEFAULT_API_VERSION,
      cfg_default_ttl =
        (case opt_default_ttl opts of
           None \<Rightarrow> None
         | Some default_ttl \<Rightarrow> if truthy default_ttl then Some default_ttl else None)\<rparr>"

text \<open>
  The checks on the two values once both keys are there: neither is \<^verbatim>\<open>None\<close>, the
  name is a string that \<^verbatim>\<open>strip()\<close> leaves non-empty, then the key.
\<close>

definition check_name_and_key :: "pyval \<Rightarrow> pyval \<Rightarrow> GitStorageOptions \<Rightarrow> error + config" where
  "check_name_and_key name key opts =
     (if name = PNone \<or> key = PNone then Inl (ValueError MSG_NAME_AND_KEY)
      else
        (case name of
           PStr n \<Rightarrow>
             if str_strip n = [] then
               Inl (ValueError ''GitStorage name must be a non-empty string.'')
             else
               (case key of
                  PStr k \<Rightarrow>
                    if str_strip k = [] then
                      Inl (ValueError ''GitStorage key must be a non-empty string.'')
                    else Inr (resolve_configuration n k opts)
                | _ \<Rightarrow> Inl (ValueError ''GitStorage key must be a non-empty string.''))
         | _ \<Rightarrow> Inl (ValueError ''GitStorage name must be a non-empty string.'')))"

text \<open>
  \<^verbatim>\<open>GitStorage.__init__\<close>; the argument \<open>None\<close> is Python's \<^verbatim>\<open>None\<close>. The first test
  is \<^verbatim>\<open>not options or "name" not in options or "key" not in options\<close>.
\<close>

definition GitStorage_init :: "GitStorageOptions option \<Rightarrow> error + config" where
  "GitStorage_init options =
     (case options of
        None \<Rightarrow> Inl (ValueError MSG_NAME_AND_KEY)
      | Some opts \<Rightarrow>
          if options_empty opts then Inl (ValueError MSG_NAME_AND_KEY)
          else
            (case opt_name opts of
               None \<Rightarrow> Inl (ValueError MSG_NAME_AND_KEY)
             | Some name \<Rightarrow>
                 (case opt_key opts of
                    None \<Rightarrow> Inl (ValueError MSG_NAME_AND_KEY)
                  | Some key \<Rightarrow> check_name_and_key name key opts)))"

definition create_client :: "GitStorageOptions option \<Rightarrow> error + config" where
  "create_client options = GitStorage_init options"

text \<open>\<^verbatim>\<open>get_config\<close> returns a copy of \<^verbatim>\<open>self.options\<close>.\<close>

definition get_config :: "config \<Rightarrow> config" where
  "get_config self = self"

section \<open>Collaborators\<close>

record request =
  req_method :: string
  req_url :: string
  req_headers :: "(string \<times> string) list"
  req_json :: "pyval option"
  req_timeout :: nat

text \<open>
  What the client calls and its module does not define: the signing function
  \<^verbatim>\<open>generate_jwt(key, name, repo_id, permissions, ttl)\<close>, the constant
  \<^verbatim>\<open>DEFAULT_TOKEN_TTL_SECONDS\<close>, the identifier \<^verbatim>\<open>str(uuid.uuid4())\<close> and the time
  \<^verbatim>\<open>datetime.now(timezone.utc).isoformat()\<close> a call draws, \<^verbatim>\<open>get_user_agent()\<close>,
  \<^verbatim>\<open>urlencode\<close>, and the HTTP transport, which answers a request with a response.
\<close>

record env =
  generate_jwt :: "string \<Rightarrow> string \<Rightarrow> pyval \<Rightarrow> pyval \<Rightarrow> pyval \<Rightarrow> string"
  DEFAULT_TOKEN_TTL_SECONDS :: int
  uuid4 :: string
  utc_now_isoformat :: string
  get_user_agent :: string
  urlencode :: "(string \<times> string) list \<Rightarrow> string"
  http_send :: "request \<Rightarrow> response"

section \<open>Token issuance\<close>

text \<open>
  The permissions and the TTL \<^verbatim>\<open>_generate_jwt\<close> settles on before it signs. The
  argument \<open>None\<close> is a call without \<^verbatim>\<open>options\<close>; an empty dictionary is falsy too.
\<close>

definition resolve_jwt_options :: "config \<Rightarrow> pydict option \<Rightarrow> pyval \<times> pyval" where
  "resolve_jwt_options self options =
     (let permissions = PList [PStr ''git:write'', PStr ''git:read''];
          ttl = PInt 31536000
      in case options of
           Some (e # es) \<Rightarrow>
             (let opts = e # es;
                  permissions' =
                    (case dict_get opts ''permissions'' of
                       Some p \<Rightarrow> p
                     | None \<Rightarrow> permissions);
                  ttl' =
                    (case dict_get opts ''ttl'' of
                       Some option_ttl \<Rightarrow> if isinstance_int option_ttl then option_ttl else ttl
                     | None \<Rightarrow> ttl)
              in (permissions', ttl'))
         | _ \<Rightarrow>
             (case cfg_default_ttl self of
                Some default_ttl \<Rightarrow>
                  (permissions, if isinstance_int default_ttl then default_ttl else ttl)
              | None \<Rightarrow> (permissions, ttl)))"

text \<open>\<^verbatim>\<open>GitStorage._generate_jwt\<close>\<close>

definition GitStorage_generate_jwt :: "env \<Rightarrow> config \<Rightarrow> pyval \<Rightarrow> pydict option \<Rightarrow> string" where
  "GitStorage_generate_jwt E self repo_id options =
     (case resolve_jwt_options self options of
        (permissions, ttl) \<Rightarrow>
          generate_jwt E (cfg_key self) (cfg_name self) repo_id permissions ttl)"

section \<open>Repositories\<close>

text \<open>
  Modelled from the spec: \<^verbatim>\<open>RepoImpl\<close> (\<^verbatim>\<open>pierre_storage/repo.py\<close>) is a handle that
  holds the repository id, the default branch, the resolved base URLs, the organization
  name, the protocol version and the created-at timestamp its constructor is given
  (and a reference to the token issuer, which is \<open>GitStorage_generate_jwt\<close>).
\<close>

record repo =
  repo_id :: string
  repo_default_branch :: pyval
  repo_api_base_url :: string
  repo_storage_base_url :: string
  repo_name :: string
  repo_api_version :: int
  repo_created_at :: pyval

text \<open>
  Modelled from the spec: \<^verbatim>\<open>DeleteRepoResult\<close> (\<^verbatim>\<open>pierre_storage/types.py\<close>) is the
  repository id plus a confirmation message.
\<close>

record delete_repo_result =
  deleted_repo_id :: pyval
  deleted_message :: pyval

text \<open>\<^verbatim>\<open>ttl or DEFAULT_TOKEN_TTL_SECONDS\<close>\<close>

definition ttl_or_default :: "env \<Rightarrow> int option \<Rightarrow> int" where
  "ttl_or_default E ttl = int_or ttl (DEFAULT_TOKEN_TTL_SECONDS E)"

text \<open>The options of an internal \<^verbatim>\<open>_generate_jwt\<close> call: \<^verbatim>\<open>{"permissions": [p], "ttl": ttl}\<close>.\<close>

definition jwt_options :: "string \<Rightarrow> int \<Rightarrow> pydict" where
  "jwt_options p ttl = [(''permissions'', PList [PStr p]), (''ttl'', PInt ttl)]"

text \<open>\<^verbatim>\<open>f"{self.options['api_base_url']}/api/v{self.options['api_version']}{path}"\<close>\<close>

definition api_url :: "config \<Rightarrow> string \<Rightarrow> string" where
  "api_url self path =
     cfg_api_base_url self @ ''/api/v'' @ str_int (cfg_api_version self) @ path"

subsection \<open>create_repo\<close>

text \<open>
  The payload \<^verbatim>\<open>create_repo\<close> builds for a fork spec (a base repo with the key
  \<^verbatim>\<open>id\<close>): a token of its own for the forked repository, and \<^verbatim>\<open>ref\<close> and \<^verbatim>\<open>sha\<close> when
  the spec has a truthy one.
\<close>

definition fork_payload :: "env \<Rightarrow> config \<Rightarrow> int \<Rightarrow> pydict \<Rightarrow> pydict" where
  "fork_payload E self ttl fork_repo =
     (let fork_id = dict_get_default fork_repo ''id'' PNone;
          base_repo_token =
            GitStorage_generate_jwt E self fork_id (Some (jwt_options ''git:read'' ttl));
          base_repo_payload =
            [(''provider'', PStr ''code''),
             (''owner'', PStr (cfg_name self)),
             (''name'', fork_id),
             (''operation'', PStr ''fork''),
             (''auth'', PDict [(''token'', PStr base_repo_token)])];
          base_repo_payload =
            (if dict_get_truthy fork_repo ''ref''
             then dict_set base_repo_payload ''ref'' (dict_get_default fork_repo ''ref'' PNone)
             else base_repo_payload);
          base_repo_payload =
            (if dict_get_truthy fork_repo ''sha''
             then dict_set base_repo_payload ''sha'' (dict_get_default fork_repo ''sha'' PNone)
             else base_repo_payload)
      in base_repo_payload)"

text \<open>
  The request body and \<^verbatim>\<open>resolved_default_branch\<close>, as the branches on \<^verbatim>\<open>base_repo\<close>
  leave them. A \<^verbatim>\<open>base_repo\<close> that is \<^verbatim>\<open>None\<close> or an empty dictionary is falsy.
\<close>

definition create_repo_body ::
  "env \<Rightarrow> config \<Rightarrow> int \<Rightarrow> string option \<Rightarrow> pydict option \<Rightarrow> pydict \<times> pyval option" where
  "create_repo_body E self ttl default_branch base_repo =
     (let body = []
      in case base_repo of
           Some (e # es) \<Rightarrow>
             (let spec = e # es in
              if dict_has spec ''id'' then
                (let body = dict_set body ''base_repo'' (PDict (fork_payload E self ttl spec))
                 in case default_branch of
                      Some b \<Rightarrow> (dict_set body ''default_branch'' (PStr b), Some (PStr b))
                    | None \<Rightarrow> (body, None))
              else
                (let base_repo_with_provider = dict_merge [(''provider'', PStr ''github'')] spec;
                     body = dict_set body ''base_repo'' (PDict base_repo_with_provider);
                     resolved_default_branch =
                       (if dict_get_truthy spec ''default_branch''
                        then dict_get_default spec ''default_branch'' PNone
                        else case default_branch of
                               Some b \<Rightarrow> PStr b
                             | None \<Rightarrow> PStr ''main'')
                 in (dict_set body ''default_branch'' resolved_default_branch,
                     Some resolved_default_branch)))
         | _ \<Rightarrow>
             (let resolved_default_branch =
                    (case default_branch of Some b \<Rightarrow> PStr b | None \<Rightarrow> PStr ''main'')
              in (dict_set body ''default_branch'' resolved_default_branch,
                  Some resolved_default_branch)))"

text \<open>\<^verbatim>\<open>resolved_default_branch or "main"\<close>\<close>

definition branch_or_main :: "pyval option \<Rightarrow> pyval" where
  "branch_or_main b =
     (case b of None \<Rightarrow> PStr ''main'' | Some v \<Rightarrow> if truthy v then v else PStr ''main'')"

definition create_repo_request ::
  "env \<Rightarrow> config \<Rightarrow> string option \<Rightarrow> string option \<Rightarrow> pydict option \<Rightarrow> int option \<Rightarrow> request"
  where
  "create_repo_request E self ident default_branch base_repo ttl =
     (let repo_id = str_or ident (uuid4 E);
          ttl = ttl_or_default E ttl;
          jwt = GitStorage_generate_jwt E self (PStr repo_id)
                  (Some (jwt_options ''repo:write'' ttl));
          body = fst (create_repo_body E self ttl default_branch base_repo)
      in \<lparr>req_method = ''POST'',
          req_url = api_url self ''/repos'',
          req_headers =
            [(''Authorization'', ''Bearer '' @ jwt),
             (''Content-Type'', ''application/json''),
             (''Code-Storage-Agent'', get_user_agent E)],
          req_json = Some (PDict body),
          req_timeout = 30\<rparr>)"

text \<open>
  \<^verbatim>\<open>GitStorage.create_repo\<close>: the request is sent, and the response decides the
  outcome. \<^verbatim>\<open>default_branch\<close> is \<open>None\<close> when the argument is left out.
\<close>

definition create_repo ::
  "env \<Rightarrow> config \<Rightarrow> string option \<Rightarrow> string option \<Rightarrow> pydict option \<Rightarrow> int option
     \<Rightarrow> error + repo" where
  "create_repo E self ident default_branch base_repo ttl =
     (let repo_id = str_or ident (uuid4 E);
          resolved_default_branch =
            snd (create_repo_body E self (ttl_or_default E ttl) default_branch base_repo);
          response = http_send E (create_repo_request E self ident default_branch base_repo ttl)
      in if status_code response = 409 then
           Inl (ApiError ''Repository already exists'' 409 None)
         else if \<not> is_success response then
           Inl (ApiError
                  (''Failed to create repository: '' @ str_int (status_code response) @ '' ''
                     @ reason_phrase response)
                  (status_code response) (Some response))
         else
           Inr \<lparr>repo_id = repo_id,
                repo_default_branch = branch_or_main resolved_default_branch,
                repo_api_base_url = cfg_api_base_url self,
                repo_storage_base_url = cfg_storage_base_url self,
                repo_name = cfg_name self,
                repo_api_version = cfg_api_version self,
                repo_created_at = PStr (utc_now_isoformat E)\<rparr>)"

subsection \<open>list_repos\<close>

definition list_repos_request ::
  "env \<Rightarrow> config \<Rightarrow> string option \<Rightarrow> int option \<Rightarrow> int option \<Rightarrow> request" where
  "list_repos_request E self cursor limit ttl =
     (let ttl = ttl_or_default E ttl;
          jwt = GitStorage_generate_jwt E self (PStr ''org'')
                  (Some (jwt_options ''org:read'' ttl));
          params = [];
          params = (case cursor of
                      Some c \<Rightarrow> if c \<noteq> [] then params @ [(''cursor'', c)] else params
                    | None \<Rightarrow> params);
          params = (case limit of
                      Some l \<Rightarrow> params @ [(''limit'', str_int l)]
                    | None \<Rightarrow> params);
          url = api_url self ''/repos'';
          url = (if params \<noteq> [] then url @ ''?'' @ urlencode E params else url)
      in \<lparr>req_method = ''GET'',
          req_url = url,
          req_headers =
            [(''Authorization'', ''Bearer '' @ jwt),
             (''Code-Storage-Agent'', get_user_agent E)],
          req_json = None,
          req_timeout = 30\<rparr>)"

text \<open>The \<^verbatim>\<open>RepoInfo\<close> dictionary built from one entry of the response.\<close>

definition repo_info :: "pydict \<Rightarrow> pydict" where
  "repo_info repo =
     (let entry =
            [(''repo_id'', dict_get_default repo ''repo_id'' (PStr [])),
             (''url'', dict_get_default repo ''url'' (PStr [])),
             (''default_branch'', dict_get_default repo ''default_branch'' (PStr ''main'')),
             (''created_at'', dict_get_default repo ''created_at'' (PStr []))]
      in if dict_get_truthy repo ''base_repo''
         then dict_set entry ''base_repo'' (dict_get_default repo ''base_repo'' PNone)
         else entry)"

text \<open>
  What a \<^verbatim>\<open>for\<close> loop draws from a value: the items of a list, the keys of a
  dictionary, the characters of a string; the other values are not iterable.
\<close>

fun py_iter :: "pyval \<Rightarrow> error + pyval list" where
  "py_iter (PList xs) = Inr xs"
| "py_iter (PDict d) = Inr (map (\<lambda>kv. PStr (fst kv)) d)"
| "py_iter (PStr s) = Inr (map (\<lambda>c. PStr [c]) s)"
| "py_iter v = Inl TypeError"

text \<open>
  The loop over the entries: \<^verbatim>\<open>repo.get\<close> exists on a dictionary only, so the first
  entry of another type raises.
\<close>

fun list_repos_loop :: "pyval list \<Rightarrow> pydict list \<Rightarrow> error + pydict list" where
  "list_repos_loop [] repos = Inr repos"
| "list_repos_loop (PDict repo # rest) repos = list_repos_loop rest (repos @ [repo_info repo])"
| "list_repos_loop (v # rest) repos = Inl AttributeError"

text \<open>\<^verbatim>\<open>GitStorage.list_repos\<close>; the result is the dictionary the code returns.\<close>

definition list_repos ::
  "env \<Rightarrow> config \<Rightarrow> string option \<Rightarrow> int option \<Rightarrow> int option \<Rightarrow> error + pydict" where
  "list_repos E self cursor limit ttl =
     (let response = http_send E (list_repos_request E self cursor limit ttl)
      in if \<not> is_success response then
           Inl (ApiError
                  (''Failed to list repositories: '' @ str_int (status_code response) @ '' ''
                     @ reason_phrase response)
                  (status_code response) (Some response))
         else
           (case json response of
              None \<Rightarrow> Inl JSONDecodeError
            | Some (PDict data) \<Rightarrow>
                (case py_iter (dict_get_default data ''repos'' (PList [])) of
                   Inl e \<Rightarrow> Inl e
                 | Inr items \<Rightarrow>
                     (case list_repos_loop items [] of
                        Inl e \<Rightarrow> Inl e
                      | Inr repos \<Rightarrow>
                          Inr [(''repos'', PList (map PDict repos)),
                               (''next_cursor'', dict_get_default data ''next_cursor'' PNone),
                               (''has_more'',
                                  dict_get_default data ''has_more'' (PBool False))]))
            | Some v \<Rightarrow> Inl AttributeError))"

subsection \<open>find_one\<close>

definition find_one_request :: "env \<Rightarrow> config \<Rightarrow> string \<Rightarrow> request" where
  "find_one_request E self ident =
     (let repo_id = ident;
          jwt = GitStorage_generate_jwt E self (PStr repo_id)
                  (Some (jwt_options ''git:read'' (DEFAULT_TOKEN_TTL_SECONDS E)))
      in \<lparr>req_method = ''GET'',
          req_url = api_url self ''/repo'',
          req_headers =
            [(''Authorization'', ''Bearer '' @ jwt),
             (''Code-Storage-Agent'', get_user_agent E)],
          req_json = None,
          req_timeout = 30\<rparr>)"

text \<open>\<^verbatim>\<open>GitStorage.find_one\<close>; \<open>Inr None\<close> is the return value \<^verbatim>\<open>None\<close>.\<close>

definition find_one :: "env \<Rightarrow> config \<Rightarrow> string \<Rightarrow> error + repo option" where
  "find_one E self ident =
     (let response = http_send E (find_one_request E self ident)
      in if status_code response = 404 then Inr None
         else if \<not> is_success response then
           Inl (ApiError
                  (''Failed to find repository: '' @ str_int (status_code response) @ '' ''
                     @ reason_phrase response)
                  (status_code response) (Some response))
         else
           (case json response of
              None \<Rightarrow> Inl JSONDecodeError
            | Some (PDict body) \<Rightarrow>
                Inr (Some \<lparr>repo_id = ident,
                  repo_default_branch = dict_get_default body ''default_branch'' (PStr ''main''),
                  repo_api_base_url = cfg_api_base_url self,
                  repo_storage_base_url = cfg_storage_base_url self,
                  repo_name = cfg_name self,
                  repo_api_version = cfg_api_version self,
                  repo_created_at = dict_get_default body ''created_at'' (PStr [])\<rparr>)
            | Some v \<Rightarrow> Inl AttributeError))"

subsection \<open>delete_repo\<close>

definition delete_repo_request :: "env \<Rightarrow> config \<Rightarrow> string \<Rightarrow> int option \<Rightarrow> request" where
  "delete_repo_request E self ident ttl =
     (let repo_id = ident;
          ttl = ttl_or_default E ttl;
          jwt = GitStorage_generate_jwt E self (PStr repo_id)
                  (Some (jwt_options ''repo:write'' ttl))
      in \<lparr>req_method = ''DELETE'',
          req_url = api_url self ''/repos/delete'',
          req_headers =
            [(''Authorization'', ''Bearer '' @ jwt),
             (''Content-Type'', ''application/json''),
             (''Code-Storage-Agent'', get_user_agent E)],
          req_json = None,
          req_timeout = 30\<rparr>)"

text \<open>\<^verbatim>\<open>body[k]\<close> on the decoded response: only a dictionary can be indexed by a string.\<close>

fun py_index :: "pyval \<Rightarrow> string \<Rightarrow> error + pyval" where
  "py_index (PDict d) k = (case dict_get d k of None \<Rightarrow> Inl (KeyError k) | Some v \<Rightarrow> Inr v)"
| "py_index v k = Inl TypeError"

text \<open>\<^verbatim>\<open>GitStorage.delete_repo\<close>\<close>

definition delete_repo ::
  "env \<Rightarrow> config \<Rightarrow> string \<Rightarrow> int option \<Rightarrow> error + delete_repo_result" where
  "delete_repo E self ident ttl =
     (let response = http_send E (delete_repo_request E self ident ttl)
      in if status_code response = 404 then
           Inl (ApiError ''Repository not found'' 404 None)
         else if status_code response = 409 then
           Inl (ApiError ''Repository already deleted'' 409 None)
         else if \<not> is_success response then
           Inl (ApiError
                  (''Failed to delete repository: '' @ str_int (status_code response) @ '' ''
                     @ reason_phrase response)
                  (status_code response) (Some response))
         else
           (case json response of
              None \<Rightarrow> Inl JSONDecodeError
            | Some body \<Rightarrow>
                (case py_index body ''repo_id'' of
                   Inl e \<Rightarrow> Inl e
                 | Inr rid \<Rightarrow>
                     (case py_index body ''message'' of
                        Inl e \<Rightarrow> Inl e
                      | Inr msg \<Rightarrow>
                          Inr \<lparr>deleted_repo_id = rid, deleted_message = msg\<rparr>))))"

section \<open>Observations on requests and options\<close>

text \<open>The \<^verbatim>\<open>default_branch\<close> field of the JSON body a request carries, if there is one.\<close>

definition sent_default_branch :: "request \<Rightarrow> pyval option" where
  "sent_default_branch req =
     (case req_json req of Some (PDict body) \<Rightarrow> dict_get body ''default_branch'' | _ \<Rightarrow> None)"

text \<open>The \<^verbatim>\<open>base_repo\<close> payload of the JSON body a request carries.\<close>

definition sent_base_repo :: "request \<Rightarrow> pydict option" where
  "sent_base_repo req =
     (case req_json req of
        Some (PDict body) \<Rightarrow>
          (case dict_get body ''base_repo'' of Some (PDict payload) \<Rightarrow> Some payload | _ \<Rightarrow> None)
      | _ \<Rightarrow> None)"

text \<open>A value is a string with at least one character that is not white space.\<close>

definition non_blank_str :: "pyval \<Rightarrow> bool" where
  "non_blank_str v = (case v of PStr s \<Rightarrow> (\<exists>c \<in> set s. \<not> is_space c) | _ \<Rightarrow> False)"

text \<open>The options hold both the organization name and the signing key, each a non-blank string.\<close>

definition has_name_and_key :: "GitStorageOptions option \<Rightarrow> bool" where
  "has_name_and_key options =
     (case options of
        None \<Rightarrow> False
      | Some opts \<Rightarrow>
          (case opt_name opts of None \<Rightarrow> False | Some n \<Rightarrow> non_blank_str n) \<and>
          (case opt_key opts of None \<Rightarrow> False | Some k \<Rightarrow> non_blank_str k))"

section \<open>Sample inputs\<close>

text \<open>
  Collaborators for the examples: the token spells out the organization, the subject
  and the permission it was asked for, and the transport answers every request with
  the response \<open>r\<close>.
\<close>

definition env_answering :: "response \<Rightarrow> env" where
  "env_answering r =
     \<lparr>generate_jwt =
        (\<lambda>key name subject permissions ttl.
           name @ ''/'' @ (case subject of PStr s \<Rightarrow> s | _ \<Rightarrow> ''?'') @ ''/''
             @ (case permissions of PList [PStr p] \<Rightarrow> p | _ \<Rightarrow> ''?'')),
      DEFAULT_TOKEN_TTL_SECONDS = 3600,
      uuid4 = ''00000000-0000-4000-8000-000000000000'',
      utc_now_isoformat = ''2024-01-01T00:00:00+00:00'',
      get_user_agent = ''code-storage-py-sdk/0.0.0'',
      urlencode = (\<lambda>params. concat (map (\<lambda>kv. fst kv @ ''='' @ snd kv) params)),
      http_send = (\<lambda>req. r)\<rparr>"

definition acme_options :: GitStorageOptions where
  "acme_options =
     \<lparr>opt_name = Some (PStr ''acme''), opt_key = Some (PStr ''secret''),
      opt_api_base_url = None, opt_storage_base_url = None, opt_api_version = None,
      opt_default_ttl = None\<rparr>"

definition acme :: config where
  "acme =
     \<lparr>cfg_name = ''acme'', cfg_key = ''secret'',
      cfg_api_base_url = ''https://api.acme.code.storage'',
      cfg_storage_base_url = ''acme.code.storage'',
      cfg_api_version = 1,
      cfg_default_ttl = None\<rparr>"

definition resp_ok :: "pyval \<Rightarrow> response" where
  "resp_ok body = \<lparr>status_code = 200, reason_phrase = ''OK'', json = Some body\<rparr>"

definition resp_not_found :: response where
  "resp_not_found = \<lparr>status_code = 404, reason_phrase = ''Not Found'', json = None\<rparr>"

definition resp_conflict :: response where
  "resp_conflict = \<lparr>status_code = 409, reason_phrase = ''Conflict'', json = None\<rparr>"

definition resp_server_error :: response where
  "resp_server_error =
     \<lparr>status_code = 500, reason_phrase = ''Internal Server Error'', json = None\<rparr>"

text \<open>The client \<open>acme\<close> constructed with \<^verbatim>\<open>default_ttl=3600\<close>.\<close>

definition acme_hourly :: config where
  "acme_hourly = acme\<lparr>cfg_default_ttl := Some (PInt 3600)\<rparr>"

text \<open>A fork spec, and a GitHub spec whose own \<^verbatim>\<open>default_branch\<close> is the empty string.\<close>

definition fork_of_base :: pydict where
  "fork_of_base = [(''id'', PStr ''base''), (''ref'', PStr ''refs/heads/dev'')]"

definition github_release :: pydict where
  "github_release =
     [(''owner'', PStr ''octo''), (''name'', PStr ''cat''), (''default_branch'', PStr ''release'')]"

definition github_blank_branch :: pydict where
  "github_blank_branch =
     [(''owner'', PStr ''octo''), (''name'', PStr ''cat''), (''default_branch'', PStr [])]"

definition github_plain :: pydict where
  "github_plain = [(''owner'', PStr ''octo''), (''name'', PStr ''cat'')]"

text \<open>A page of a listing: two repositories, the second one with a base repo.\<close>

definition page_entries :: "pydict list" where
  "page_entries =
     [[(''repo_id'', PStr ''r1''), (''base_repo'', PNone)],
      [(''repo_id'', PStr ''r2''), (''default_branch'', PStr ''dev''),
       (''base_repo'', PDict [(''provider'', PStr ''github'')])]]"

definition page :: pydict where
  "page =
     [(''repos'', PList (map PDict page_entries)),
      (''next_cursor'', PStr ''c2''),
      (''has_more'', PBool True)]"

section \<open>Dictionaries and strings\<close>

lemma dict_get_dict_set:
  "dict_get (dict_set d k v) k' = (if k' = k then Some v else dict_get d k')"
  by (induction d) (auto simp: dict_get_def)

lemma dict_has_get: "dict_has d k = (dict_get d k \<noteq> None)"
  by (simp add: dict_has_def dict_get_def)

lemma dict_get_default_get:
  "dict_get_default d k dflt = (case dict_get d k of None \<Rightarrow> dflt | Some v \<Rightarrow> v)"
  by (simp add: dict_get_default_def dict_get_def)

lemma dict_get_truthy_get:
  "dict_get_truthy d k = (case dict_get d k of None \<Rightarrow> False | Some v \<Rightarrow> truthy v)"
  by (simp add: dict_get_truthy_def dict_get_def)

lemma str_strip_Nil_iff: "(str_strip s = []) = (\<forall>c \<in> set s. is_space c)"
proof
  assume "str_strip s = []"
  then have a: "\<forall>x \<in> set (dropWhile is_space s). is_space x"
    by (simp add: str_strip_def)
  have "dropWhile is_space s = []"
  proof (rule ccontr)
    assume ne: "dropWhile is_space s \<noteq> []"
    then have "\<not> is_space (hd (dropWhile is_space s))" by (rule hd_dropWhile)
    moreover have "hd (dropWhile is_space s) \<in> set (dropWhile is_space s)"
      using ne by simp
    ultimately show False using a by blast
  qed
  then show "\<forall>c \<in> set s. is_space c" by simp
next
  assume "\<forall>c \<in> set s. is_space c"
  then show "str_strip s = []"
    by (auto simp: str_strip_def dest: set_dropWhileD)
qed

lemma str_int_examples:
  "str_int 1 = ''1''" "str_int 409 = ''409''" "str_int 500 = ''500''" "str_int (- 15) = ''-15''"
  by (simp_all add: str_int_def str_nat.simps digit_char_def)

section \<open>Construction\<close>

lemma default_api_base_url_eq:
  "get_default_api_base_url n = ''https://api.'' @ n @ ''.code.storage''"
  by (simp add: get_default_api_base_url_def DEFAULT_API_BASE_URL_def str_replace_def)

lemma default_storage_base_url_eq:
  "get_default_storage_base_url n = n @ ''.code.storage''"
  by (simp add: get_default_storage_base_url_def DEFAULT_STORAGE_BASE_URL_def str_replace_def)

lemma init_Inr_iff:
  "(GitStorage_init options = Inr self) =
     (\<exists>opts n k. options = Some opts \<and> opt_name opts = Some (PStr n) \<and>
        opt_key opts = Some (PStr k) \<and> str_strip n \<noteq> [] \<and> str_strip k \<noteq> [] \<and>
        self = resolve_configuration n k opts)"
  by (auto simp: GitStorage_init_def check_name_and_key_def options_empty_def
      split: option.splits pyval.splits)

lemma init_acme: "GitStorage_init (Some acme_options) = Inr acme"
  by (simp add: GitStorage_init_def check_name_and_key_def resolve_configuration_def
      acme_options_def acme_def options_empty_def str_strip_def is_space_def str_or_def
      int_or_def DEFAULT_API_VERSION_def default_api_base_url_eq default_storage_base_url_eq)

lemma init_invalid:
  "\<not> has_name_and_key options \<Longrightarrow> \<exists>msg. GitStorage_init options = Inl (ValueError msg)"
  by (auto simp: has_name_and_key_def non_blank_str_def GitStorage_init_def
      check_name_and_key_def str_strip_Nil_iff split: option.splits pyval.splits)

lemma init_valid:
  "has_name_and_key options \<Longrightarrow> \<exists>self. GitStorage_init options = Inr self"
  by (auto simp: has_name_and_key_def non_blank_str_def GitStorage_init_def
      check_name_and_key_def str_strip_Nil_iff options_empty_def
      split: option.splits pyval.splits)

lemma acme_options_valid: "has_name_and_key (Some acme_options)"
  by (simp add: has_name_and_key_def non_blank_str_def acme_options_def is_space_def)

text \<open>
  C6, as the code has it. The constructor fails exactly when the options lack the
  organization name or the signing key, or one of them is not a non-blank string, and
  the exception it raises is a \<^verbatim>\<open>ValueError\<close>; with both a non-blank string it returns
  a client. The constructor takes no transport: it sends nothing.
\<close>

theorem init_requires_name_and_key:
  "(\<not> has_name_and_key options \<longrightarrow> (\<exists>msg. GitStorage_init options = Inl (ValueError msg)))
   \<and> (has_name_and_key options \<longrightarrow> (\<exists>self. GitStorage_init options = Inr self))"
  using init_invalid init_valid by blast

theorem init_requires_name_and_key_witness:
  "\<not> has_name_and_key None
   \<and> (\<exists>msg. GitStorage_init None = Inl (ValueError msg))
   \<and> has_name_and_key (Some acme_options)
   \<and> (\<exists>self. GitStorage_init (Some acme_options) = Inr self)"
proof -
  have a: "\<not> has_name_and_key None" by (simp add: has_name_and_key_def)
  from init_requires_name_and_key [of None] a
  have b: "\<exists>msg. GitStorage_init None = Inl (ValueError msg)" by blast
  from init_requires_name_and_key [of "Some acme_options"] acme_options_valid
  have c: "\<exists>self. GitStorage_init (Some acme_options) = Inr self" by blast
  from a b c acme_options_valid show ?thesis by blast
qed

text \<open>
  Options without a name: the exception is a \<^verbatim>\<open>ValueError\<close>, not a configuration error
  of the library's own.
\<close>

theorem init_error_class_counterexample:
  "GitStorage_init (Some (acme_options\<lparr>opt_name := None\<rparr>)) = Inl (ValueError MSG_NAME_AND_KEY)
   \<and> exception_class (ValueError MSG_NAME_AND_KEY) = ''ValueError''
   \<and> exception_class (ValueError MSG_NAME_AND_KEY) \<noteq> ''ConfigurationError''"
  by (simp add: GitStorage_init_def acme_options_def options_empty_def)

text \<open>
  C9, as the code has it. For every organization name, the default API base URL is
  \<^verbatim>\<open>https://api.<org>.code.storage\<close> and the default storage base URL is
  \<^verbatim>\<open><org>.code.storage\<close>, and a client constructed without URLs has exactly these.
\<close>

theorem default_urls:
  assumes "GitStorage_init (Some opts) = Inr self"
    and "opt_name opts = Some (PStr org)"
    and "opt_api_base_url opts = None"
    and "opt_storage_base_url opts = None"
  shows "get_default_api_base_url org = ''https://api.'' @ org @ ''.code.storage''
    \<and> get_default_storage_base_url org = org @ ''.code.storage''
    \<and> cfg_api_base_url self = get_default_api_base_url org
    \<and> cfg_storage_base_url self = get_default_storage_base_url org"
proof -
  from assms(1,2) obtain k where "self = resolve_configuration org k opts"
    by (auto simp: init_Inr_iff)
  with assms(3,4) show ?thesis
    by (simp add: resolve_configuration_def str_or_def default_api_base_url_eq
        default_storage_base_url_eq)
qed

theorem default_urls_witness:
  "GitStorage_init (Some acme_options) = Inr acme
   \<and> opt_name acme_options = Some (PStr ''acme'')
   \<and> opt_api_base_url acme_options = None
   \<and> opt_storage_base_url acme_options = None
   \<and> cfg_api_base_url acme = ''https://api.acme.code.storage''
   \<and> cfg_storage_base_url acme = ''acme.code.storage''"
proof -
  have n: "opt_name acme_options = Some (PStr ''acme'')"
    and a: "opt_api_base_url acme_options = None"
    and b: "opt_storage_base_url acme_options = None"
    by (simp_all add: acme_options_def)
  from default_urls [OF init_acme n a b] have
    "cfg_api_base_url acme = ''https://api.acme.code.storage''"
    "cfg_storage_base_url acme = ''acme.code.storage''"
    by simp_all
  with init_acme n a b show ?thesis by simp
qed

text \<open>The organization \<^verbatim>\<open>acme\<close>: neither URL ends in \<^verbatim>\<open>.example\<close>.\<close>

theorem default_urls_counterexample:
  "get_default_api_base_url ''acme'' \<noteq> ''https://api.acme.example''
   \<and> get_default_storage_base_url ''acme'' \<noteq> ''acme.example''"
  by (simp add: default_api_base_url_eq default_storage_base_url_eq)

section \<open>Responses\<close>

lemma http_send_env_answering: "http_send (env_answering r) req = r"
  by (simp add: env_answering_def)

lemma is_success_samples:
  "is_success (resp_ok body)" "\<not> is_success resp_not_found" "\<not> is_success resp_conflict"
  "\<not> is_success resp_server_error"
  by (simp_all add: is_success_def resp_ok_def resp_not_found_def resp_conflict_def
      resp_server_error_def)

lemma status_code_samples:
  "status_code (resp_ok body) = 200" "status_code resp_not_found = 404"
  "status_code resp_conflict = 409" "status_code resp_server_error = 500"
  by (simp_all add: resp_ok_def resp_not_found_def resp_conflict_def resp_server_error_def)

lemma reason_phrase_samples:
  "reason_phrase resp_server_error = ''Internal Server Error''"
  by (simp add: resp_server_error_def)

lemma json_resp_ok: "json (resp_ok body) = Some body"
  by (simp add: resp_ok_def)

lemma is_success_not_404: "is_success r \<Longrightarrow> status_code r \<noteq> 404"
  by (auto simp: is_success_def)

lemma is_success_not_409: "is_success r \<Longrightarrow> status_code r \<noteq> 409"
  by (auto simp: is_success_def)

subsection \<open>find_one\<close>

text \<open>
  C5. With \<open>r\<close> the response to the request of \<^verbatim>\<open>find_one\<close>: a 404 returns \<^verbatim>\<open>None\<close> and
  raises nothing; any other status outside 200 to 299 raises \<^verbatim>\<open>ApiError\<close> with that
  status; and a success whose body is a JSON object returns a \<^verbatim>\<open>Repo\<close> for the id
  asked for, built from the body's \<^verbatim>\<open>default_branch\<close> (\<^verbatim>\<open>"main"\<close> when the key is missing)
  and \<^verbatim>\<open>created_at\<close> (the empty string when the key is missing).
\<close>

theorem find_one_outcomes:
  assumes "http_send E (find_one_request E self ident) = r"
  shows "(status_code r = 404 \<longrightarrow> find_one E self ident = Inr None)
    \<and> (status_code r \<noteq> 404 \<and> \<not> is_success r \<longrightarrow>
         find_one E self ident =
           Inl (ApiError
                 (''Failed to find repository: '' @ str_int (status_code r) @ '' ''
                    @ reason_phrase r)
                 (status_code r) (Some r)))
    \<and> (is_success r \<and> json r = Some (PDict body) \<longrightarrow>
         (\<exists>repo. find_one E self ident = Inr (Some repo)
            \<and> repo_id repo = ident
            \<and> repo_default_branch repo =
                (case dict_get body ''default_branch'' of None \<Rightarrow> PStr ''main'' | Some v \<Rightarrow> v)
            \<and> repo_created_at repo =
                (case dict_get body ''created_at'' of None \<Rightarrow> PStr [] | Some v \<Rightarrow> v)))"
  using assms
  by (simp add: find_one_def is_success_not_404 dict_get_default_get)

theorem find_one_outcomes_witness:
  "status_code resp_not_found = 404
   \<and> find_one (env_answering resp_not_found) acme ''r1'' = Inr None
   \<and> status_code resp_server_error \<noteq> 404 \<and> \<not> is_success resp_server_error
   \<and> find_one (env_answering resp_server_error) acme ''r1'' =
       Inl (ApiError ''Failed to find repository: 500 Internal Server Error'' 500
             (Some resp_server_error))
   \<and> is_success (resp_ok (PDict [(''created_at'', PStr ''2024'')]))
   \<and> (\<exists>repo. find_one (env_answering (resp_ok (PDict [(''created_at'', PStr ''2024'')])))
                acme ''r1'' = Inr (Some repo)
         \<and> repo_id repo = ''r1''
         \<and> repo_default_branch repo = PStr ''main''
         \<and> repo_created_at repo = PStr ''2024'')"
proof -
  let ?ok = "resp_ok (PDict [(''created_at'', PStr ''2024'')])"
  have a: "find_one (env_answering resp_not_found) acme ''r1'' = Inr None"
    using find_one_outcomes [OF http_send_env_answering, of resp_not_found acme "''r1''"]
    by (simp add: status_code_samples)
  have b: "find_one (env_answering resp_server_error) acme ''r1'' =
       Inl (ApiError ''Failed to find repository: 500 Internal Server Error'' 500
             (Some resp_server_error))"
    using find_one_outcomes [OF http_send_env_answering, of resp_server_error acme "''r1''"]
    by (simp add: status_code_samples is_success_samples reason_phrase_samples
        str_int_examples)
  have c: "\<exists>repo. find_one (env_answering ?ok) acme ''r1'' = Inr (Some repo)
         \<and> repo_id repo = ''r1''
         \<and> repo_default_branch repo = PStr ''main''
         \<and> repo_created_at repo = PStr ''2024''"
    using find_one_outcomes [OF http_send_env_answering, of ?ok acme "''r1''"
        "[(''created_at'', PStr ''2024'')]"]
    by (simp add: is_success_samples json_resp_ok dict_get_def)
  from a b c show ?thesis
    by (simp add: status_code_samples is_success_samples)
qed

subsection \<open>delete_repo\<close>

text \<open>
  C3, as the code has it. With \<open>r\<close> the response to the request of \<^verbatim>\<open>delete_repo\<close>: a
  404 raises \<^verbatim>\<open>ApiError("Repository not found", status_code=404)\<close>, a 409 raises
  \<^verbatim>\<open>ApiError("Repository already deleted", status_code=409)\<close>, any other status outside
  200 to 299 raises \<^verbatim>\<open>ApiError\<close> with that status; and on a success whose body is a JSON
  object the result's \<^verbatim>\<open>repo_id\<close> and \<^verbatim>\<open>message\<close> are the body's, the call raising
  \<^verbatim>\<open>KeyError\<close> when either key is missing.
\<close>

theorem delete_repo_outcomes:
  assumes "http_send E (delete_repo_request E self ident ttl) = r"
  shows "(status_code r = 404 \<longrightarrow>
           delete_repo E self ident ttl = Inl (ApiError ''Repository not found'' 404 None))
    \<and> (status_code r = 409 \<longrightarrow>
           delete_repo E self ident ttl = Inl (ApiError ''Repository already deleted'' 409 None))
    \<and> (status_code r \<noteq> 404 \<and> status_code r \<noteq> 409 \<and> \<not> is_success r \<longrightarrow>
           delete_repo E self ident ttl =
             Inl (ApiError
                   (''Failed to delete repository: '' @ str_int (status_code r) @ '' ''
                      @ reason_phrase r)
                   (status_code r) (Some r)))
    \<and> (is_success r \<and> json r = Some (PDict body) \<longrightarrow>
           delete_repo E self ident ttl =
             (case dict_get body ''repo_id'' of
                None \<Rightarrow> Inl (KeyError ''repo_id'')
              | Some rid \<Rightarrow>
                  (case dict_get body ''message'' of
                     None \<Rightarrow> Inl (KeyError ''message'')
                   | Some msg \<Rightarrow> Inr \<lparr>deleted_repo_id = rid, deleted_message = msg\<rparr>)))"
  using assms
  by (simp add: delete_repo_def is_success_not_404 is_success_not_409 split: option.splits)

theorem delete_repo_outcomes_witness:
  "status_code resp_not_found = 404
   \<and> delete_repo (env_answering resp_not_found) acme ''r1'' None =
       Inl (ApiError ''Repository not found'' 404 None)
   \<and> status_code resp_conflict = 409
   \<and> delete_repo (env_answering resp_conflict) acme ''r1'' None =
       Inl (ApiError ''Repository already deleted'' 409 None)
   \<and> \<not> is_success resp_server_error
   \<and> delete_repo (env_answering resp_server_error) acme ''r1'' None =
       Inl (ApiError ''Failed to delete repository: 500 Internal Server Error'' 500
             (Some resp_server_error))
   \<and> is_success (resp_ok (PDict [(''repo_id'', PStr ''r1''), (''message'', PStr ''gone'')]))
   \<and> delete_repo
        (env_answering (resp_ok (PDict [(''repo_id'', PStr ''r1''), (''message'', PStr ''gone'')])))
        acme ''r1'' None =
       Inr \<lparr>deleted_repo_id = PStr ''r1'', deleted_message = PStr ''gone''\<rparr>
   \<and> is_success (resp_ok (PDict [(''repo_id'', PStr ''r1'')]))
   \<and> delete_repo (env_answering (resp_ok (PDict [(''repo_id'', PStr ''r1'')]))) acme ''r1'' None =
       Inl (KeyError ''message'')"
proof -
  let ?full = "resp_ok (PDict [(''repo_id'', PStr ''r1''), (''message'', PStr ''gone'')])"
  let ?part = "resp_ok (PDict [(''repo_id'', PStr ''r1'')])"
  have a: "delete_repo (env_answering resp_not_found) acme ''r1'' None =
       Inl (ApiError ''Repository not found'' 404 None)"
    using delete_repo_outcomes [OF http_send_env_answering, of resp_not_found acme "''r1''" None]
    by (simp add: status_code_samples)
  have b: "delete_repo (env_answering resp_conflict) acme ''r1'' None =
       Inl (ApiError ''Repository already deleted'' 409 None)"
    using delete_repo_outcomes [OF http_send_env_answering, of resp_conflict acme "''r1''" None]
    by (simp add: status_code_samples)
  have c: "delete_repo (env_answering resp_server_error) acme ''r1'' None =
       Inl (ApiError ''Failed to delete repository: 500 Internal Server Error'' 500
             (Some resp_server_error))"
    using delete_repo_outcomes [OF http_send_env_answering, of resp_server_error acme "''r1''"
        None]
    by (simp add: status_code_samples is_success_samples reason_phrase_samples
        str_int_examples)
  have d: "delete_repo (env_answering ?full) acme ''r1'' None =
       Inr \<lparr>deleted_repo_id = PStr ''r1'', deleted_message = PStr ''gone''\<rparr>"
    using delete_repo_outcomes [OF http_send_env_answering, of ?full acme "''r1''" None
        "[(''repo_id'', PStr ''r1''), (''message'', PStr ''gone'')]"]
    by (simp add: is_success_samples json_resp_ok dict_get_def)
  have e: "delete_repo (env_answering ?part) acme ''r1'' None = Inl (KeyError ''message'')"
    using delete_repo_outcomes [OF http_send_env_answering, of ?part acme "''r1''" None
        "[(''repo_id'', PStr ''r1'')]"]
    by (simp add: is_success_samples json_resp_ok dict_get_def)
  from a b c d e show ?thesis
    by (simp add: status_code_samples is_success_samples)
qed

text \<open>
  A 404 and a 409: the exception raised is of the class \<^verbatim>\<open>ApiError\<close>, the class of every
  other HTTP failure, and not a class of its own.
\<close>

theorem delete_repo_error_class_counterexample:
  "delete_repo (env_answering resp_not_found) acme ''r1'' None =
     Inl (ApiError ''Repository not found'' 404 None)
   \<and> exception_class (ApiError ''Repository not found'' 404 None) = ''ApiError''
   \<and> exception_class (ApiError ''Repository not found'' 404 None) \<noteq> ''NotFoundError''
   \<and> delete_repo (env_answering resp_conflict) acme ''r1'' None =
     Inl (ApiError ''Repository already deleted'' 409 None)
   \<and> exception_class (ApiError ''Repository already deleted'' 409 None) \<noteq> ''ConflictError''"
  by (simp add: delete_repo_def http_send_env_answering status_code_samples)

subsection \<open>create_repo\<close>

text \<open>
  C4, as the code has it. With \<open>r\<close> the response to the request of \<^verbatim>\<open>create_repo\<close>: a
  409 raises \<^verbatim>\<open>ApiError("Repository already exists", status_code=409)\<close>, and any other
  status outside 200 to 299 raises \<^verbatim>\<open>ApiError\<close> with that status, the status and the
  reason phrase in its message, and the response.
\<close>

theorem create_repo_failures:
  assumes "http_send E (create_repo_request E self ident default_branch base_repo ttl) = r"
  shows "(status_code r = 409 \<longrightarrow>
           create_repo E self ident default_branch base_repo ttl =
             Inl (ApiError ''Repository already exists'' 409 None))
    \<and> (status_code r \<noteq> 409 \<and> \<not> is_success r \<longrightarrow>
           create_repo E self ident default_branch base_repo ttl =
             Inl (ApiError
                   (''Failed to create repository: '' @ str_int (status_code r) @ '' ''
                      @ reason_phrase r)
                   (status_code r) (Some r)))"
  using assms
  by (simp add: create_repo_def Let_def)

theorem create_repo_failures_witness:
  "status_code resp_conflict = 409
   \<and> create_repo (env_answering resp_conflict) acme (Some ''r1'') None None None =
       Inl (ApiError ''Repository already exists'' 409 None)
   \<and> status_code resp_server_error \<noteq> 409 \<and> \<not> is_success resp_server_error
   \<and> create_repo (env_answering resp_server_error) acme (Some ''r1'') None None None =
       Inl (ApiError ''Failed to create repository: 500 Internal Server Error'' 500
             (Some resp_server_error))"
proof -
  have a: "create_repo (env_answering resp_conflict) acme (Some ''r1'') None None None =
       Inl (ApiError ''Repository already exists'' 409 None)"
    using create_repo_failures [OF http_send_env_answering, of resp_conflict acme "Some ''r1''"
        None None None]
    by (simp add: status_code_samples)
  have b: "create_repo (env_answering resp_server_error) acme (Some ''r1'') None None None =
       Inl (ApiError ''Failed to create repository: 500 Internal Server Error'' 500
             (Some resp_server_error))"
    using create_repo_failures [OF http_send_env_answering, of resp_server_error acme
        "Some ''r1''" None None None]
    by (simp add: status_code_samples is_success_samples reason_phrase_samples
        str_int_examples)
  from a b show ?thesis
    by (simp add: status_code_samples is_success_samples)
qed

text \<open>A 409: the exception raised is of the class \<^verbatim>\<open>ApiError\<close>.\<close>

theorem create_repo_error_class_counterexample:
  "create_repo (env_answering resp_conflict) acme (Some ''r1'') None None None =
     Inl (ApiError ''Repository already exists'' 409 None)
   \<and> exception_class (ApiError ''Repository already exists'' 409 None) = ''ApiError''
   \<and> exception_class (ApiError ''Repository already exists'' 409 None) \<noteq> ''ConflictError''"
  by (simp add: create_repo_def Let_def http_send_env_answering status_code_samples)

section \<open>Token issuance\<close>

lemma generate_jwt_resolved:
  "GitStorage_generate_jwt E self rid options =
     generate_jwt E (cfg_key self) (cfg_name self) rid
       (fst (resolve_jwt_options self options)) (snd (resolve_jwt_options self options))"
  by (simp add: GitStorage_generate_jwt_def split: prod.splits)

lemma resolve_jwt_options_internal:
  "resolve_jwt_options self (Some (jwt_options p t)) = (PList [PStr p], PInt t)"
  by (simp add: resolve_jwt_options_def jwt_options_def dict_get_def)

lemma generate_jwt_internal:
  "GitStorage_generate_jwt E self rid (Some (jwt_options p t)) =
     generate_jwt E (cfg_key self) (cfg_name self) rid (PList [PStr p]) (PInt t)"
  by (simp add: generate_jwt_resolved resolve_jwt_options_internal)

lemma resolve_ttl_explicit:
  "dict_get opts ''ttl'' = Some t \<Longrightarrow> isinstance_int t \<Longrightarrow>
     snd (resolve_jwt_options self (Some opts)) = t"
  by (cases opts) (auto simp: resolve_jwt_options_def dict_get_def)

lemma resolve_ttl_not_int:
  "dict_get opts ''ttl'' = Some t \<Longrightarrow> \<not> isinstance_int t \<Longrightarrow>
     snd (resolve_jwt_options self (Some opts)) = PInt 31536000"
  by (cases opts) (auto simp: resolve_jwt_options_def dict_get_def)

lemma resolve_ttl_missing:
  "opts \<noteq> [] \<Longrightarrow> dict_get opts ''ttl'' = None \<Longrightarrow>
     snd (resolve_jwt_options self (Some opts)) = PInt 31536000"
  by (cases opts) (auto simp: resolve_jwt_options_def dict_get_def)

lemma resolve_ttl_client_default:
  "cfg_default_ttl self = Some d \<Longrightarrow> isinstance_int d \<Longrightarrow>
     snd (resolve_jwt_options self None) = d \<and> snd (resolve_jwt_options self (Some [])) = d"
  by (simp add: resolve_jwt_options_def)

lemma resolve_ttl_fallback:
  "cfg_default_ttl self = None \<Longrightarrow>
     snd (resolve_jwt_options self None) = PInt 31536000
     \<and> snd (resolve_jwt_options self (Some [])) = PInt 31536000"
  by (simp add: resolve_jwt_options_def)

lemma resolve_permissions_default:
  "dict_get opts ''permissions'' = None \<Longrightarrow>
     fst (resolve_jwt_options self (Some opts)) = PList [PStr ''git:write'', PStr ''git:read'']"
  by (cases opts) (auto simp: resolve_jwt_options_def dict_get_def Let_def split: option.splits)

lemma resolve_permissions_none:
  "fst (resolve_jwt_options self None) = PList [PStr ''git:write'', PStr ''git:read'']"
  by (simp add: resolve_jwt_options_def Let_def split: option.splits)

lemma resolve_ttl_client_default_not_int:
  "cfg_default_ttl self = Some d \<Longrightarrow> \<not> isinstance_int d \<Longrightarrow>
     snd (resolve_jwt_options self None) = PInt 31536000
     \<and> snd (resolve_jwt_options self (Some [])) = PInt 31536000"
  by (simp add: resolve_jwt_options_def)

lemma init_acme_hourly:
  "GitStorage_init (Some (acme_options\<lparr>opt_default_ttl := Some (PInt 3600)\<rparr>)) = Inr acme_hourly"
  by (simp add: GitStorage_init_def check_name_and_key_def resolve_configuration_def
      acme_options_def acme_hourly_def acme_def options_empty_def str_strip_def is_space_def
      str_or_def int_or_def DEFAULT_API_VERSION_def default_api_base_url_eq
      default_storage_base_url_eq)

text \<open>
  C2. The client \<open>acme_hourly\<close> is constructed with \<^verbatim>\<open>default_ttl=3600\<close>. A call of
  \<^verbatim>\<open>_generate_jwt\<close> without options signs with the client's default, 3600 seconds, and
  a call with the TTL 60 signs with 60. A call whose options name a permission and no
  TTL should sign with the client's default too; the code signs with 31,536,000
  seconds: \<^verbatim>\<open>default_ttl\<close> is read in the \<^verbatim>\<open>elif\<close> of \<^verbatim>\<open>if options:\<close>, so only a call
  without options reaches it.
\<close>

theorem jwt_ttl_skips_client_default:
  "GitStorage_init (Some (acme_options\<lparr>opt_default_ttl := Some (PInt 3600)\<rparr>)) = Inr acme_hourly
   \<and> cfg_default_ttl acme_hourly = Some (PInt 3600)
   \<and> resolve_jwt_options acme_hourly None =
       (PList [PStr ''git:write'', PStr ''git:read''], PInt 3600)
   \<and> resolve_jwt_options acme_hourly
         (Some [(''permissions'', PList [PStr ''git:read'']), (''ttl'', PInt 60)]) =
       (PList [PStr ''git:read''], PInt 60)
   \<and> dict_get [(''permissions'', PList [PStr ''git:read''])] ''ttl'' = None
   \<and> resolve_jwt_options acme_hourly (Some [(''permissions'', PList [PStr ''git:read''])]) =
       (PList [PStr ''git:read''], PInt 31536000)
   \<and> snd (resolve_jwt_options acme_hourly (Some [(''permissions'', PList [PStr ''git:read''])]))
       \<noteq> PInt 3600"
proof -
  have a: "cfg_default_ttl acme_hourly = Some (PInt 3600)"
    by (simp add: acme_hourly_def)
  have b: "resolve_jwt_options acme_hourly None =
       (PList [PStr ''git:write'', PStr ''git:read''], PInt 3600)"
    by (simp add: resolve_jwt_options_def a)
  have c: "resolve_jwt_options acme_hourly
         (Some [(''permissions'', PList [PStr ''git:read'']), (''ttl'', PInt 60)]) =
       (PList [PStr ''git:read''], PInt 60)"
    by (simp add: resolve_jwt_options_def dict_get_def)
  have d: "dict_get [(''permissions'', PList [PStr ''git:read''])] ''ttl'' = None"
    by (simp add: dict_get_def)
  have e: "resolve_jwt_options acme_hourly (Some [(''permissions'', PList [PStr ''git:read''])]) =
       (PList [PStr ''git:read''], PInt 31536000)"
    by (simp add: resolve_jwt_options_def dict_get_def)
  from init_acme_hourly a b c d e show ?thesis by simp
qed

section \<open>The body of a create request\<close>

lemma dict_has_nonempty: "dict_has spec k \<Longrightarrow> spec \<noteq> []"
  by (auto simp: dict_has_def)

lemma create_repo_body_fork:
  "dict_has spec ''id'' \<Longrightarrow>
     create_repo_body E self t default_branch (Some spec) =
       (case default_branch of
          Some b \<Rightarrow>
            ([(''base_repo'', PDict (fork_payload E self t spec)), (''default_branch'', PStr b)],
             Some (PStr b))
        | None \<Rightarrow> ([(''base_repo'', PDict (fork_payload E self t spec))], None))"
  by (cases spec) (auto simp: create_repo_body_def Let_def dict_has_def split: option.splits)

lemma create_repo_body_github:
  "spec \<noteq> [] \<Longrightarrow> \<not> dict_has spec ''id'' \<Longrightarrow>
     create_repo_body E self t default_branch (Some spec) =
       ([(''base_repo'', PDict (dict_merge [(''provider'', PStr ''github'')] spec)),
         (''default_branch'',
            if dict_get_truthy spec ''default_branch''
            then dict_get_default spec ''default_branch'' PNone
            else PStr (case default_branch of Some b \<Rightarrow> b | None \<Rightarrow> ''main''))],
        Some (if dict_get_truthy spec ''default_branch''
              then dict_get_default spec ''default_branch'' PNone
              else PStr (case default_branch of Some b \<Rightarrow> b | None \<Rightarrow> ''main'')))"
  by (cases spec) (auto simp: create_repo_body_def Let_def split: option.splits)

lemma create_repo_body_plain:
  "base_repo = None \<or> base_repo = Some [] \<Longrightarrow>
     create_repo_body E self t default_branch base_repo =
       ([(''default_branch'', PStr (case default_branch of Some b \<Rightarrow> b | None \<Rightarrow> ''main''))],
        Some (PStr (case default_branch of Some b \<Rightarrow> b | None \<Rightarrow> ''main'')))"
  by (auto simp: create_repo_body_def Let_def split: option.splits)

lemma req_json_create:
  "req_json (create_repo_request E self ident default_branch base_repo ttl) =
     Some (PDict (fst (create_repo_body E self (ttl_or_default E ttl) default_branch base_repo)))"
  by (simp add: create_repo_request_def Let_def)

lemma authorization_create:
  "map_of (req_headers (create_repo_request E self ident default_branch base_repo ttl))
     ''Authorization'' =
     Some (''Bearer '' @
       generate_jwt E (cfg_key self) (cfg_name self) (PStr (str_or ident (uuid4 E)))
         (PList [PStr ''repo:write'']) (PInt (ttl_or_default E ttl)))"
  by (simp add: create_repo_request_def Let_def generate_jwt_internal)

lemma sent_default_branch_create:
  "sent_default_branch (create_repo_request E self ident default_branch base_repo ttl) =
     dict_get (fst (create_repo_body E self (ttl_or_default E ttl) default_branch base_repo))
       ''default_branch''"
  by (simp add: sent_default_branch_def req_json_create)

lemma sent_fork:
  "dict_has spec ''id'' \<Longrightarrow>
     sent_default_branch (create_repo_request E self ident default_branch (Some spec) ttl) =
       map_option PStr default_branch"
  by (simp add: sent_default_branch_create create_repo_body_fork dict_get_def
      split: option.splits)

lemma sent_github_own:
  "spec \<noteq> [] \<Longrightarrow> \<not> dict_has spec ''id'' \<Longrightarrow> dict_get spec ''default_branch'' = Some v \<Longrightarrow>
     truthy v \<Longrightarrow>
     sent_default_branch (create_repo_request E self ident default_branch (Some spec) ttl) =
       Some v"
  by (simp add: sent_default_branch_create create_repo_body_github dict_get_truthy_get
      dict_get_default_get dict_get_def)

lemma sent_github_other:
  "spec \<noteq> [] \<Longrightarrow> \<not> dict_has spec ''id'' \<Longrightarrow> \<not> dict_get_truthy spec ''default_branch'' \<Longrightarrow>
     sent_default_branch (create_repo_request E self ident default_branch (Some spec) ttl) =
       Some (PStr (case default_branch of Some b \<Rightarrow> b | None \<Rightarrow> ''main''))"
  by (simp add: sent_default_branch_create create_repo_body_github dict_get_def)

lemma sent_plain:
  "base_repo = None \<or> base_repo = Some [] \<Longrightarrow>
     sent_default_branch (create_repo_request E self ident default_branch base_repo ttl) =
       Some (PStr (case default_branch of Some b \<Rightarrow> b | None \<Rightarrow> ''main''))"
  by (simp add: sent_default_branch_create create_repo_body_plain dict_get_def)

text \<open>
  C1, as the code has it. The \<^verbatim>\<open>default_branch\<close> field of the body \<^verbatim>\<open>create_repo\<close>
  sends: (1) for a fork spec (a base repo with the key \<^verbatim>\<open>id\<close>), the \<^verbatim>\<open>default_branch\<close>
  argument when it is given, and no field at all when it is not; (2) for a GitHub spec,
  the spec's own \<^verbatim>\<open>default_branch\<close> when it is there and truthy (not empty), else the
  argument when it is given, else \<^verbatim>\<open>"main"\<close>; (3) without a base repo (none, or an empty
  one), the argument when it is given, else \<^verbatim>\<open>"main"\<close>.
\<close>

theorem default_branch_precedence:
  "(dict_has spec ''id'' \<longrightarrow>
      sent_default_branch (create_repo_request E self ident default_branch (Some spec) ttl) =
        map_option PStr default_branch)
   \<and> (spec \<noteq> [] \<and> \<not> dict_has spec ''id'' \<and> dict_get spec ''default_branch'' = Some v
        \<and> truthy v \<longrightarrow>
      sent_default_branch (create_repo_request E self ident default_branch (Some spec) ttl) =
        Some v)
   \<and> (spec \<noteq> [] \<and> \<not> dict_has spec ''id'' \<and> \<not> dict_get_truthy spec ''default_branch'' \<longrightarrow>
      sent_default_branch (create_repo_request E self ident default_branch (Some spec) ttl) =
        Some (PStr (case default_branch of Some b \<Rightarrow> b | None \<Rightarrow> ''main'')))
   \<and> sent_default_branch (create_repo_request E self ident default_branch None ttl) =
        Some (PStr (case default_branch of Some b \<Rightarrow> b | None \<Rightarrow> ''main''))
   \<and> sent_default_branch (create_repo_request E self ident default_branch (Some []) ttl) =
        Some (PStr (case default_branch of Some b \<Rightarrow> b | None \<Rightarrow> ''main''))"
  using sent_fork [of spec E self ident default_branch ttl]
    sent_github_own [of spec v E self ident default_branch ttl]
    sent_github_other [of spec E self ident default_branch ttl]
    sent_plain [of None E self ident default_branch ttl]
    sent_plain [of "Some []" E self ident default_branch ttl]
  by blast

lemma sample_specs:
  "dict_has fork_of_base ''id''"
  "github_release \<noteq> []" "\<not> dict_has github_release ''id''"
  "dict_get github_release ''default_branch'' = Some (PStr ''release'')"
  "github_blank_branch \<noteq> []" "\<not> dict_has github_blank_branch ''id''"
  "dict_get github_blank_branch ''default_branch'' = Some (PStr [])"
  "\<not> dict_get_truthy github_blank_branch ''default_branch''"
  "github_plain \<noteq> []" "\<not> dict_has github_plain ''id''"
  "\<not> dict_get_truthy github_plain ''default_branch''"
  by (simp_all add: fork_of_base_def github_release_def github_blank_branch_def
      github_plain_def dict_has_def dict_get_def dict_get_truthy_def)

theorem default_branch_precedence_witness:
  "dict_has fork_of_base ''id''
   \<and> sent_default_branch
        (create_repo_request (env_answering (resp_ok (PDict []))) acme None (Some ''dev'')
           (Some fork_of_base) None) = Some (PStr ''dev'')
   \<and> sent_default_branch
        (create_repo_request (env_answering (resp_ok (PDict []))) acme None None
           (Some fork_of_base) None) = None
   \<and> github_release \<noteq> [] \<and> \<not> dict_has github_release ''id''
   \<and> dict_get github_release ''default_branch'' = Some (PStr ''release'')
   \<and> truthy (PStr ''release'')
   \<and> sent_default_branch
        (create_repo_request (env_answering (resp_ok (PDict []))) acme None (Some ''dev'')
           (Some github_release) None) = Some (PStr ''release'')
   \<and> github_plain \<noteq> [] \<and> \<not> dict_has github_plain ''id''
   \<and> \<not> dict_get_truthy github_plain ''default_branch''
   \<and> sent_default_branch
        (create_repo_request (env_answering (resp_ok (PDict []))) acme None (Some ''dev'')
           (Some github_plain) None) = Some (PStr ''dev'')
   \<and> sent_default_branch
        (create_repo_request (env_answering (resp_ok (PDict []))) acme None None
           (Some github_plain) None) = Some (PStr ''main'')
   \<and> sent_default_branch
        (create_repo_request (env_answering (resp_ok (PDict []))) acme None None None None)
        = Some (PStr ''main'')"
proof -
  let ?E = "env_answering (resp_ok (PDict []))"
  have a: "sent_default_branch
        (create_repo_request ?E acme None (Some ''dev'') (Some fork_of_base) None)
        = Some (PStr ''dev'')"
    using default_branch_precedence [where spec = fork_of_base and E = ?E and self = acme
        and ident = None and default_branch = "Some ''dev''" and ttl = None]
    by (simp add: sample_specs)
  have b: "sent_default_branch
        (create_repo_request ?E acme None None (Some fork_of_base) None) = None"
    using default_branch_precedence [where spec = fork_of_base and E = ?E and self = acme
        and ident = None and default_branch = None and ttl = None]
    by (simp add: sample_specs)
  have c: "sent_default_branch
        (create_repo_request ?E acme None (Some ''dev'') (Some github_release) None)
        = Some (PStr ''release'')"
    using default_branch_precedence [where spec = github_release and E = ?E and self = acme
        and ident = None and default_branch = "Some ''dev''" and ttl = None
        and v = "PStr ''release''"]
    by (simp add: sample_specs)
  have d: "sent_default_branch
        (create_repo_request ?E acme None (Some ''dev'') (Some github_plain) None)
        = Some (PStr ''dev'')"
    using default_branch_precedence [where spec = github_plain and E = ?E and self = acme
        and ident = None and default_branch = "Some ''dev''" and ttl = None]
    by (simp add: sample_specs)
  have e: "sent_default_branch
        (create_repo_request ?E acme None None (Some github_plain) None)
        = Some (PStr ''main'')"
    using default_branch_precedence [where spec = github_plain and E = ?E and self = acme
        and ident = None and default_branch = None and ttl = None]
    by (simp add: sample_specs)
  have f: "sent_default_branch (create_repo_request ?E acme None None None None)
        = Some (PStr ''main'')"
    using default_branch_precedence [where E = ?E and self = acme
        and ident = None and default_branch = None and ttl = None]
    by simp
  from a b c d e f show ?thesis
    by (simp add: sample_specs)
qed

text \<open>
  A GitHub spec whose own \<^verbatim>\<open>default_branch\<close> is the empty string, and the argument
  \<^verbatim>\<open>"dev"\<close>: the field is there, and the branch sent is the argument, not the field.
\<close>

theorem default_branch_counterexample:
  "dict_get github_blank_branch ''default_branch'' = Some (PStr [])
   \<and> \<not> dict_has github_blank_branch ''id''
   \<and> sent_default_branch
        (create_repo_request (env_answering (resp_ok (PDict []))) acme None (Some ''dev'')
           (Some github_blank_branch) None) = Some (PStr ''dev'')
   \<and> sent_default_branch
        (create_repo_request (env_answering (resp_ok (PDict []))) acme None (Some ''dev'')
           (Some github_blank_branch) None) \<noteq> Some (PStr [])"
  by (simp add: sample_specs sent_github_other)

section \<open>Forks\<close>

lemma fork_payload_auth:
  "dict_get spec ''id'' = Some fork_id \<Longrightarrow>
     dict_get (fork_payload E self t spec) ''auth'' =
       Some (PDict [(''token'',
         PStr (generate_jwt E (cfg_key self) (cfg_name self) fork_id
                 (PList [PStr ''git:read'']) (PInt t)))])"
  by (simp add: fork_payload_def Let_def dict_get_dict_set generate_jwt_internal
      dict_get_default_get)
    (simp add: dict_get_def)

lemma fork_payload_ref:
  "dict_get (fork_payload E self t spec) ''ref'' =
     (if dict_get_truthy spec ''ref'' then dict_get spec ''ref'' else None)"
  by (auto simp: fork_payload_def Let_def dict_get_dict_set dict_get_default_get
      dict_get_truthy_get split: option.splits)
    (simp_all add: dict_get_def)

lemma fork_payload_sha:
  "dict_get (fork_payload E self t spec) ''sha'' =
     (if dict_get_truthy spec ''sha'' then dict_get spec ''sha'' else None)"
  by (auto simp: fork_payload_def Let_def dict_get_dict_set dict_get_default_get
      dict_get_truthy_get split: option.splits)
    (simp_all add: dict_get_def)

lemma sent_base_repo_fork:
  "dict_has spec ''id'' \<Longrightarrow>
     sent_base_repo (create_repo_request E self ident default_branch (Some spec) ttl) =
       Some (fork_payload E self (ttl_or_default E ttl) spec)"
  by (simp add: sent_base_repo_def req_json_create create_repo_body_fork dict_get_def
      split: option.splits)

lemma dict_get_truthy_has: "dict_get_truthy d k \<Longrightarrow> dict_has d k"
  by (auto simp: dict_get_truthy_def dict_has_def split: option.splits)

text \<open>
  C8. For a fork spec with the id \<open>fork_id\<close>, the request of \<^verbatim>\<open>create_repo\<close> carries two
  tokens: the bearer token, signed for the new repository with \<^verbatim>\<open>repo:write\<close>, and a
  second one signed for the subject \<open>fork_id\<close> with the permissions \<^verbatim>\<open>["git:read"]\<close>,
  which is the \<^verbatim>\<open>auth\<close> credential of the \<^verbatim>\<open>base_repo\<close> payload. The payload has a
  \<^verbatim>\<open>ref\<close> (a \<^verbatim>\<open>sha\<close>) only when the spec has one, and then it is the spec's.
\<close>

theorem fork_token_and_payload:
  assumes "dict_get spec ''id'' = Some fork_id"
  shows "\<exists>payload.
      sent_base_repo (create_repo_request E self ident default_branch (Some spec) ttl) =
        Some payload
    \<and> dict_get payload ''auth'' =
        Some (PDict [(''token'',
          PStr (generate_jwt E (cfg_key self) (cfg_name self) fork_id
                  (PList [PStr ''git:read'']) (PInt (ttl_or_default E ttl))))])
    \<and> map_of (req_headers (create_repo_request E self ident default_branch (Some spec) ttl))
        ''Authorization'' =
        Some (''Bearer '' @
          generate_jwt E (cfg_key self) (cfg_name self) (PStr (str_or ident (uuid4 E)))
            (PList [PStr ''repo:write'']) (PInt (ttl_or_default E ttl)))
    \<and> (dict_has payload ''ref'' \<longrightarrow>
         dict_has spec ''ref'' \<and> dict_get payload ''ref'' = dict_get spec ''ref'')
    \<and> (dict_has payload ''sha'' \<longrightarrow>
         dict_has spec ''sha'' \<and> dict_get payload ''sha'' = dict_get spec ''sha'')
    \<and> (dict_get_truthy spec ''ref'' \<longrightarrow> dict_get payload ''ref'' = dict_get spec ''ref'')
    \<and> (dict_get_truthy spec ''sha'' \<longrightarrow> dict_get payload ''sha'' = dict_get spec ''sha'')"
proof -
  let ?payload = "fork_payload E self (ttl_or_default E ttl) spec"
  from assms have has: "dict_has spec ''id''" by (simp add: dict_has_get)
  have ref: "dict_has ?payload ''ref'' \<longrightarrow>
         dict_has spec ''ref'' \<and> dict_get ?payload ''ref'' = dict_get spec ''ref''"
    using dict_get_truthy_has [of spec "''ref''"]
    by (auto simp: dict_has_get fork_payload_ref split: if_splits)
  have sha: "dict_has ?payload ''sha'' \<longrightarrow>
         dict_has spec ''sha'' \<and> dict_get ?payload ''sha'' = dict_get spec ''sha''"
    using dict_get_truthy_has [of spec "''sha''"]
    by (auto simp: dict_has_get fork_payload_sha split: if_splits)
  show ?thesis
    using sent_base_repo_fork [OF has] fork_payload_auth [OF assms] authorization_create ref sha
    by (simp add: fork_payload_ref fork_payload_sha)
qed

lemma fork_of_base_fields:
  "dict_get fork_of_base ''id'' = Some (PStr ''base'')"
  "dict_get fork_of_base ''ref'' = Some (PStr ''refs/heads/dev'')"
  "dict_get_truthy fork_of_base ''ref''"
  "\<not> dict_has fork_of_base ''sha''"
  by (simp_all add: fork_of_base_def dict_get_def dict_get_truthy_def dict_has_def)

lemma env_answering_fields:
  "generate_jwt (env_answering r) key name (PStr s) (PList [PStr p]) ttl = name @ ''/'' @ s @ ''/'' @ p"
  "uuid4 (env_answering r) = ''00000000-0000-4000-8000-000000000000''"
  "DEFAULT_TOKEN_TTL_SECONDS (env_answering r) = 3600"
  by (simp_all add: env_answering_def)

theorem fork_token_and_payload_witness:
  "dict_get fork_of_base ''id'' = Some (PStr ''base'')
   \<and> (\<exists>payload.
        sent_base_repo
          (create_repo_request (env_answering (resp_ok (PDict []))) acme (Some ''r1'') None
             (Some fork_of_base) None) = Some payload
      \<and> dict_get payload ''auth'' = Some (PDict [(''token'', PStr ''acme/base/git:read'')])
      \<and> map_of
          (req_headers
            (create_repo_request (env_answering (resp_ok (PDict []))) acme (Some ''r1'') None
               (Some fork_of_base) None)) ''Authorization'' =
          Some ''Bearer acme/r1/repo:write''
      \<and> dict_get payload ''ref'' = Some (PStr ''refs/heads/dev'')
      \<and> \<not> dict_has payload ''sha'')"
proof -
  let ?E = "env_answering (resp_ok (PDict []))"
  from fork_token_and_payload [OF fork_of_base_fields(1), of ?E acme "Some ''r1''" None None]
  obtain payload where
    p: "sent_base_repo (create_repo_request ?E acme (Some ''r1'') None (Some fork_of_base) None)
          = Some payload"
    and a: "dict_get payload ''auth'' =
        Some (PDict [(''token'',
          PStr (generate_jwt ?E (cfg_key acme) (cfg_name acme) (PStr ''base'')
                  (PList [PStr ''git:read'']) (PInt (ttl_or_default ?E None))))])"
    and h: "map_of (req_headers
              (create_repo_request ?E acme (Some ''r1'') None (Some fork_of_base) None))
            ''Authorization'' =
        Some (''Bearer '' @
          generate_jwt ?E (cfg_key acme) (cfg_name acme) (PStr (str_or (Some ''r1'') (uuid4 ?E)))
            (PList [PStr ''repo:write'']) (PInt (ttl_or_default ?E None)))"
    and s: "dict_has payload ''sha'' \<longrightarrow> dict_has fork_of_base ''sha''
              \<and> dict_get payload ''sha'' = dict_get fork_of_base ''sha''"
    and r: "dict_get_truthy fork_of_base ''ref'' \<longrightarrow>
              dict_get payload ''ref'' = dict_get fork_of_base ''ref''"
    by blast
  from a have a': "dict_get payload ''auth'' = Some (PDict [(''token'', PStr ''acme/base/git:read'')])"
    by (simp add: env_answering_fields acme_def)
  from h have h': "map_of (req_headers
              (create_repo_request ?E acme (Some ''r1'') None (Some fork_of_base) None))
            ''Authorization'' = Some ''Bearer acme/r1/repo:write''"
    by (simp add: env_answering_fields acme_def str_or_def)
  from r have r': "dict_get payload ''ref'' = Some (PStr ''refs/heads/dev'')"
    by (simp add: fork_of_base_fields)
  from s have s': "\<not> dict_has payload ''sha''"
    using fork_of_base_fields(4) by blast
  from p a' h' r' s' fork_of_base_fields(1) show ?thesis by blast
qed

text \<open>
  C10. A fork spec, no \<^verbatim>\<open>default_branch\<close> argument and a successful response: the body
  sent has no \<^verbatim>\<open>default_branch\<close> field, and the \<^verbatim>\<open>Repo\<close> returned has the default branch
  \<^verbatim>\<open>"main"\<close>.
\<close>

theorem fork_without_branch_reports_main:
  assumes "dict_has spec ''id''"
    and "http_send E (create_repo_request E self ident None (Some spec) ttl) = r"
    and "is_success r"
  shows "sent_default_branch (create_repo_request E self ident None (Some spec) ttl) = None
    \<and> (\<exists>body. req_json (create_repo_request E self ident None (Some spec) ttl) =
                 Some (PDict body) \<and> \<not> dict_has body ''default_branch'')
    \<and> (\<exists>repo. create_repo E self ident None (Some spec) ttl = Inr repo
          \<and> repo_default_branch repo = PStr ''main'')"
proof -
  have a: "sent_default_branch (create_repo_request E self ident None (Some spec) ttl) = None"
    using sent_fork [OF assms(1), of E self ident None ttl] by simp
  have b: "\<exists>body. req_json (create_repo_request E self ident None (Some spec) ttl) =
                 Some (PDict body) \<and> \<not> dict_has body ''default_branch''"
    using a by (simp add: req_json_create sent_default_branch_create dict_has_get)
  have c: "\<exists>repo. create_repo E self ident None (Some spec) ttl = Inr repo
          \<and> repo_default_branch repo = PStr ''main''"
    using assms(2,3) is_success_not_409 [OF assms(3)]
    by (simp add: create_repo_def Let_def create_repo_body_fork [OF assms(1)]
        branch_or_main_def)
  from a b c show ?thesis by blast
qed

theorem fork_without_branch_reports_main_witness:
  "dict_has fork_of_base ''id''
   \<and> is_success (resp_ok (PDict []))
   \<and> sent_default_branch
        (create_repo_request (env_answering (resp_ok (PDict []))) acme (Some ''r1'') None
           (Some fork_of_base) None) = None
   \<and> (\<exists>repo. create_repo (env_answering (resp_ok (PDict []))) acme (Some ''r1'') None
                (Some fork_of_base) None = Inr repo
         \<and> repo_default_branch repo = PStr ''main'')"
  using fork_without_branch_reports_main [OF sample_specs(1) http_send_env_answering
      is_success_samples(1), of "PDict []" acme "Some ''r1''" None]
    sample_specs(1) is_success_samples(1) [of "PDict []"]
  by blast

section \<open>Listings\<close>

lemma list_repos_loop_dicts:
  "list_repos_loop (map PDict entries) repos = Inr (repos @ map repo_info entries)"
  by (induction entries arbitrary: repos) simp_all

lemma repo_info_fields:
  "dict_get (repo_info repo) ''repo_id'' =
     Some (case dict_get repo ''repo_id'' of None \<Rightarrow> PStr [] | Some v \<Rightarrow> v)"
  "dict_get (repo_info repo) ''url'' =
     Some (case dict_get repo ''url'' of None \<Rightarrow> PStr [] | Some v \<Rightarrow> v)"
  "dict_get (repo_info repo) ''default_branch'' =
     Some (case dict_get repo ''default_branch'' of None \<Rightarrow> PStr ''main'' | Some v \<Rightarrow> v)"
  "dict_get (repo_info repo) ''created_at'' =
     Some (case dict_get repo ''created_at'' of None \<Rightarrow> PStr [] | Some v \<Rightarrow> v)"
  by (simp_all add: repo_info_def Let_def dict_get_dict_set dict_get_default_get)
    (simp_all add: dict_get_def)

lemma repo_info_base_repo:
  "dict_get (repo_info repo) ''base_repo'' =
     (if dict_get_truthy repo ''base_repo'' then dict_get repo ''base_repo'' else None)"
  by (auto simp: repo_info_def Let_def dict_get_dict_set dict_get_default_get
      dict_get_truthy_get split: option.splits)
    (simp_all add: dict_get_def)

lemma list_repos_failure:
  "http_send E (list_repos_request E self cursor limit ttl) = r \<Longrightarrow> \<not> is_success r \<Longrightarrow>
     list_repos E self cursor limit ttl =
       Inl (ApiError
             (''Failed to list repositories: '' @ str_int (status_code r) @ '' ''
                @ reason_phrase r)
             (status_code r) (Some r))"
  by (simp add: list_repos_def)

lemma list_repos_success:
  "http_send E (list_repos_request E self cursor limit ttl) = r \<Longrightarrow> is_success r \<Longrightarrow>
   json r = Some (PDict data) \<Longrightarrow> dict_get data ''repos'' = Some (PList (map PDict entries)) \<Longrightarrow>
     list_repos E self cursor limit ttl =
       Inr [(''repos'', PList (map (\<lambda>repo. PDict (repo_info repo)) entries)),
            (''next_cursor'',
               case dict_get data ''next_cursor'' of None \<Rightarrow> PNone | Some v \<Rightarrow> v),
            (''has_more'',
               case dict_get data ''has_more'' of None \<Rightarrow> PBool False | Some v \<Rightarrow> v)]"
  by (simp add: list_repos_def dict_get_default_get list_repos_loop_dicts)

lemma list_repos_no_repos:
  "http_send E (list_repos_request E self cursor limit ttl) = r \<Longrightarrow> is_success r \<Longrightarrow>
   json r = Some (PDict data) \<Longrightarrow> dict_get data ''repos'' = None \<Longrightarrow>
     list_repos E self cursor limit ttl =
       Inr [(''repos'', PList []),
            (''next_cursor'',
               case dict_get data ''next_cursor'' of None \<Rightarrow> PNone | Some v \<Rightarrow> v),
            (''has_more'',
               case dict_get data ''has_more'' of None \<Rightarrow> PBool False | Some v \<Rightarrow> v)]"
  by (simp add: list_repos_def dict_get_default_get)

text \<open>
  C7. With \<open>r\<close> the response to the request of \<^verbatim>\<open>list_repos\<close>: a status outside 200 to
  299 raises \<^verbatim>\<open>ApiError\<close>; a success whose body is a JSON object with a list of
  repository objects returns one \<^verbatim>\<open>RepoInfo\<close> for each, in the order of the response,
  with \<^verbatim>\<open>next_cursor\<close> as the server gave it (\<^verbatim>\<open>None\<close> when it gave none) and
  \<^verbatim>\<open>has_more\<close> as the server gave it (\<^verbatim>\<open>False\<close> when it gave none). A \<^verbatim>\<open>RepoInfo\<close> has
  the entry's \<^verbatim>\<open>repo_id\<close>, \<^verbatim>\<open>url\<close> and \<^verbatim>\<open>created_at\<close> (the empty string for a missing
  key) and \<^verbatim>\<open>default_branch\<close> (\<^verbatim>\<open>"main"\<close> for a missing key), and a \<^verbatim>\<open>base_repo\<close> only
  when the entry has a truthy one.
\<close>

theorem list_repos_mapping:
  assumes "http_send E (list_repos_request E self cursor limit ttl) = r"
  shows "(\<not> is_success r \<longrightarrow>
           list_repos E self cursor limit ttl =
             Inl (ApiError
                   (''Failed to list repositories: '' @ str_int (status_code r) @ '' ''
                      @ reason_phrase r)
                   (status_code r) (Some r)))
    \<and> (is_success r \<and> json r = Some (PDict data)
        \<and> dict_get data ''repos'' = Some (PList (map PDict entries)) \<longrightarrow>
           list_repos E self cursor limit ttl =
             Inr [(''repos'', PList (map (\<lambda>repo. PDict (repo_info repo)) entries)),
                  (''next_cursor'',
                     case dict_get data ''next_cursor'' of None \<Rightarrow> PNone | Some v \<Rightarrow> v),
                  (''has_more'',
                     case dict_get data ''has_more'' of None \<Rightarrow> PBool False | Some v \<Rightarrow> v)])
    \<and> (is_success r \<and> json r = Some (PDict data) \<and> dict_get data ''repos'' = None \<longrightarrow>
           list_repos E self cursor limit ttl =
             Inr [(''repos'', PList []),
                  (''next_cursor'',
                     case dict_get data ''next_cursor'' of None \<Rightarrow> PNone | Some v \<Rightarrow> v),
                  (''has_more'',
                     case dict_get data ''has_more'' of None \<Rightarrow> PBool False | Some v \<Rightarrow> v)])
    \<and> dict_get (repo_info repo) ''repo_id'' =
         Some (case dict_get repo ''repo_id'' of None \<Rightarrow> PStr [] | Some v \<Rightarrow> v)
    \<and> dict_get (repo_info repo) ''url'' =
         Some (case dict_get repo ''url'' of None \<Rightarrow> PStr [] | Some v \<Rightarrow> v)
    \<and> dict_get (repo_info repo) ''default_branch'' =
         Some (case dict_get repo ''default_branch'' of None \<Rightarrow> PStr ''main'' | Some v \<Rightarrow> v)
    \<and> dict_get (repo_info repo) ''created_at'' =
         Some (case dict_get repo ''created_at'' of None \<Rightarrow> PStr [] | Some v \<Rightarrow> v)
    \<and> dict_get (repo_info repo) ''base_repo'' =
         (if dict_get_truthy repo ''base_repo'' then dict_get repo ''base_repo'' else None)"
  using list_repos_failure [OF assms] list_repos_success [OF assms, of data entries]
    list_repos_no_repos [OF assms, of data] repo_info_fields [of repo]
    repo_info_base_repo [of repo]
  by blast

lemma page_fields:
  "dict_get page ''repos'' = Some (PList (map PDict page_entries))"
  "dict_get page ''next_cursor'' = Some (PStr ''c2'')"
  "dict_get page ''has_more'' = Some (PBool True)"
  by (simp_all add: page_def dict_get_def)

lemma page_entries_info:
  "map (\<lambda>repo. PDict (repo_info repo)) page_entries =
     [PDict [(''repo_id'', PStr ''r1''), (''url'', PStr []), (''default_branch'', PStr ''main''),
             (''created_at'', PStr [])],
      PDict [(''repo_id'', PStr ''r2''), (''url'', PStr []), (''default_branch'', PStr ''dev''),
             (''created_at'', PStr []),
             (''base_repo'', PDict [(''provider'', PStr ''github'')])]]"
  by (simp add: page_entries_def repo_info_def dict_get_default_def dict_get_truthy_def)

theorem list_repos_mapping_witness:
  "\<not> is_success resp_server_error
   \<and> list_repos (env_answering resp_server_error) acme None None None =
       Inl (ApiError ''Failed to list repositories: 500 Internal Server Error'' 500
             (Some resp_server_error))
   \<and> is_success (resp_ok (PDict page)) \<and> json (resp_ok (PDict page)) = Some (PDict page)
   \<and> dict_get page ''repos'' = Some (PList (map PDict page_entries))
   \<and> list_repos (env_answering (resp_ok (PDict page))) acme None None None =
       Inr [(''repos'',
             PList
              [PDict [(''repo_id'', PStr ''r1''), (''url'', PStr []),
                      (''default_branch'', PStr ''main''), (''created_at'', PStr [])],
               PDict [(''repo_id'', PStr ''r2''), (''url'', PStr []),
                      (''default_branch'', PStr ''dev''), (''created_at'', PStr []),
                      (''base_repo'', PDict [(''provider'', PStr ''github'')])]]),
            (''next_cursor'', PStr ''c2''),
            (''has_more'', PBool True)]
   \<and> is_success (resp_ok (PDict [])) \<and> dict_get [] ''repos'' = None
   \<and> list_repos (env_answering (resp_ok (PDict []))) acme None None None =
       Inr [(''repos'', PList []), (''next_cursor'', PNone), (''has_more'', PBool False)]"
proof -
  have a: "list_repos (env_answering resp_server_error) acme None None None =
       Inl (ApiError ''Failed to list repositories: 500 Internal Server Error'' 500
             (Some resp_server_error))"
    using list_repos_mapping [where E = "env_answering resp_server_error"
        and r = resp_server_error and self = acme and cursor = None and limit = None
        and ttl = None, OF http_send_env_answering]
    by (simp add: status_code_samples is_success_samples reason_phrase_samples
        str_int_examples)
  have b: "list_repos (env_answering (resp_ok (PDict page))) acme None None None =
       Inr [(''repos'', PList (map (\<lambda>repo. PDict (repo_info repo)) page_entries)),
            (''next_cursor'', PStr ''c2''),
            (''has_more'', PBool True)]"
    using list_repos_mapping [where E = "env_answering (resp_ok (PDict page))"
        and r = "resp_ok (PDict page)" and self = acme and cursor = None and limit = None
        and ttl = None and data = page and entries = page_entries,
        OF http_send_env_answering]
    by (simp add: is_success_samples json_resp_ok page_fields)
  have c: "list_repos (env_answering (resp_ok (PDict []))) acme None None None =
       Inr [(''repos'', PList []), (''next_cursor'', PNone), (''has_more'', PBool False)]"
    using list_repos_mapping [where E = "env_answering (resp_ok (PDict []))"
        and r = "resp_ok (PDict [])" and self = acme and cursor = None and limit = None
        and ttl = None and data = "[]", OF http_send_env_answering]
    by (simp add: is_success_samples json_resp_ok dict_get_def)
  have e: "dict_get [] ''repos'' = None" by (simp add: dict_get_def)
  from a b c e show ?thesis
    by (simp add: is_success_samples json_resp_ok page_fields page_entries_info)
qed


end
